theory Spec2Isabelle
  imports Complex_Main
begin

section \<open>Configuration (mtxConfig.ts)\<close>

record ShippingMethods =
  corriereStandard :: string
  corriereContrassegno :: string

record AddressCustomFields =
  pIvaID :: string
  fattID :: string

record MtxConfig =
  shippingMethods :: ShippingMethods
  addressCustomFields :: AddressCustomFields

definition mtxConfig :: MtxConfig where
  "mtxConfig =
     \<lparr> shippingMethods =
         \<lparr> corriereStandard = ''Corriere Espresso B2B'',
           corriereContrassegno = ''Corriere Contrassegno B2B'' \<rparr>,
       addressCustomFields = \<lparr> pIvaID = ''30'', fattID = ''32'' \<rparr> \<rparr>"

section \<open>Form-field definitions and the two requirement patchers\<close>

text \<open>
  A \<open>FormField\<close> of the checkout SDK. The attributes the patchers read or write are
  \<open>name\<close>, \<open>id\<close> (here \<open>id'\<close>) and \<open>required\<close>; \<open>custom\<close> and \<open>label\<close> are two of the
  display attributes, and the extension slot of the record stands for all the others, so
  that the object spread \<open>{...field, required: false}\<close> is the record update.
\<close>

record FormField =
  name :: string
  id' :: string
  required :: bool
  custom :: bool
  label :: string

text \<open>\<open>getFieldsWithPivaReadonly\<close> (billing form, module level).\<close>

definition getFieldsWithPivaReadonly ::
  "(string option \<Rightarrow> 'a FormField_scheme list) \<Rightarrow> string option \<Rightarrow> 'a FormField_scheme list" where
  "getFieldsWithPivaReadonly getFields countryCode =
     (let fields = getFields countryCode;
          pIvaId = pIvaID (addressCustomFields mtxConfig)
      in map (\<lambda>field.
           let isPivaField =
                 (name field = ''field_'' @ pIvaId \<or>
                  name field = ''customField['' @ pIvaId @ '']'' \<or>
                  id' field = pIvaId);
               isCompanyField =
                 (name field = ''company'' \<or>
                  name field = ''billingAddress.company'' \<or>
                  name field = ''shippingAddress.company'' \<or>
                  id' field = ''company'')
           in if isPivaField \<or> isCompanyField
              then field\<lparr>required := False\<rparr>
              else field) fields)"

text \<open>
  \<open>getFieldsWithPivaRequired\<close> (shipping form); in the source it is a closure over the
  \<open>getFields\<close> prop, which is the first argument here.
\<close>

definition getFieldsWithPivaRequired ::
  "(string option \<Rightarrow> 'a FormField_scheme list) \<Rightarrow> string option \<Rightarrow> 'a FormField_scheme list" where
  "getFieldsWithPivaRequired getFields countryCode =
     (let fields = getFields countryCode;
          pIvaId = pIvaID (addressCustomFields mtxConfig)
      in map (\<lambda>field.
           let isPivaField =
                 (name field = ''field_'' @ pIvaId \<or>
                  name field = ''customField['' @ pIvaId @ '']'' \<or>
                  id' field = pIvaId);
               isCompanyField =
                 (name field = ''company'' \<or>
                  name field = ''shippingAddress.company'' \<or>
                  id' field = ''company'')
           in if isPivaField \<or> isCompanyField
              then field\<lparr>required := False\<rparr>
              else field) fields)"

text \<open>
  The aliases as the specification words them, to compare the patchers against: the VAT
  aliases, the company aliases common to both forms, and the billing-address alias.
\<close>

definition vatAlias :: "'a FormField_scheme \<Rightarrow> bool" where
  "vatAlias f \<longleftrightarrow>
     name f = ''field_'' @ pIvaID (addressCustomFields mtxConfig) \<or>
     name f = ''customField['' @ pIvaID (addressCustomFields mtxConfig) @ '']'' \<or>
     id' f = pIvaID (addressCustomFields mtxConfig)"

definition companyAlias :: "'a FormField_scheme \<Rightarrow> bool" where
  "companyAlias f \<longleftrightarrow>
     name f = ''company'' \<or> name f = ''billingAddress.company'' \<or>
     name f = ''shippingAddress.company'' \<or> id' f = ''company''"

definition shippingCompanyAlias :: "'a FormField_scheme \<Rightarrow> bool" where
  "shippingCompanyAlias f \<longleftrightarrow>
     name f = ''company'' \<or> name f = ''shippingAddress.company'' \<or> id' f = ''company''"

section \<open>Resolving the company name\<close>

text \<open>A custom-field value of the SDK: a string, a list of strings or a number.\<close>

datatype fieldValue = FVString string | FVStrings "string list" | FVNumber rat

record AddressCustomField =
  fieldId :: string
  fieldValue :: fieldValue

text \<open>
  An \<open>Address\<close> of the checkout SDK; a customer's stored address is an extension of it.
  \<open>customFields\<close> is \<open>None\<close> when the attribute is not an array (the source tests
  \<open>Array.isArray\<close>). The extension slot stands for the attributes not listed.
\<close>

record Address =
  firstName :: string
  lastName :: string
  company :: string
  address1 :: string
  city :: string
  countryCode :: string
  postalCode :: string
  phone :: string
  customFields :: "AddressCustomField list option"

record CustomerGroup =
  groupId :: nat
  groupName :: string

record 'a Customer =
  customerId :: nat
  isGuest :: bool
  addresses :: "'a Address_scheme list"
  customerGroup :: "CustomerGroup option"

text \<open>
  JavaScript's \<open>a || b\<close> on values that are a string or \<open>undefined\<close> (\<open>None\<close>): \<open>a\<close> when
  it is truthy, that is a non-empty string, else \<open>b\<close>.
\<close>

definition truthyString :: "string option \<Rightarrow> bool" where
  "truthyString v = (case v of None \<Rightarrow> False | Some s \<Rightarrow> s \<noteq> [])"

definition jsOr :: "string option \<Rightarrow> string option \<Rightarrow> string option" where
  "jsOr a b = (if truthyString a then a else b)"

definition jsOrDefault :: "string option \<Rightarrow> string \<Rightarrow> string" where
  "jsOrDefault a d = (case a of None \<Rightarrow> d | Some s \<Rightarrow> if s \<noteq> [] then s else d)"

text \<open>\<open>customer?.customerGroup?.name\<close>\<close>

definition companyNameFromGroup :: "('a, 'b) Customer_scheme option \<Rightarrow> string option" where
  "companyNameFromGroup customer =
     (case customer of None \<Rightarrow> None
      | Some c \<Rightarrow> (case customerGroup c of None \<Rightarrow> None | Some g \<Rightarrow> Some (groupName g)))"

text \<open>\<open>customer?.addresses?.[0]?.company\<close>\<close>

definition companyNameFromAddress :: "('a, 'b) Customer_scheme option \<Rightarrow> string option" where
  "companyNameFromAddress customer =
     (case customer of None \<Rightarrow> None
      | Some c \<Rightarrow> (case addresses c of [] \<Rightarrow> None | a # rest \<Rightarrow> Some (company a)))"

text \<open>
  \<open>companyName\<close> of both forms; the second argument is the address being edited, the
  \<open>billingAddress\<close> prop of the billing form and the \<open>shippingAddress\<close> prop of the shipping
  form.
\<close>

definition companyName ::
  "('a, 'b) Customer_scheme option \<Rightarrow> 'c Address_scheme option \<Rightarrow> string" where
  "companyName customer editedAddress =
     jsOrDefault
       (jsOr (jsOr (companyNameFromGroup customer) (companyNameFromAddress customer))
             (map_option company editedAddress))
       []"

text \<open>
  The billing form throws before it resolves the name when the checkout data is missing;
  the shipping form has no such guard.
\<close>

datatype jsError =
    CheckoutDataNotAvailable
  | FetchFailed
  | HttpError nat
  | JsonSyntaxError
  | NullPropertyRead

definition billingCompanyName ::
  "'cfg option \<Rightarrow> ('a, 'b) Customer_scheme option \<Rightarrow> 'cart option \<Rightarrow>
   'c Address_scheme option \<Rightarrow> jsError + string" where
  "billingCompanyName config customer cart billingAddress =
     (if config = None \<or> customer = None \<or> cart = None
      then Inl CheckoutDataNotAvailable
      else Inr (companyName customer billingAddress))"

section \<open>Loading the VAT number\<close>

text \<open>
  What \<open>res.json()\<close> can resolve to. \<open>data\<close> is untyped in the source, so every JSON
  value is a possible body, not only an object.
\<close>

datatype json =
    JNull
  | JBool bool
  | JNum rat
  | JStr string
  | JArr "json list"
  | JObj "(string \<times> json) list"

text \<open>
  A response: its status and its body, \<open>None\<close> when the body is not valid JSON (then
  \<open>res.json()\<close> rejects). \<open>res.ok\<close> is the status being in the range 200 to 299.
\<close>

record Response =
  status :: nat
  body :: "json option"

definition ok :: "Response \<Rightarrow> bool" where
  "ok res \<longleftrightarrow> 200 \<le> status res \<and> status res \<le> 299"

datatype fetchOutcome = NetworkError | Resolved Response

text \<open>JavaScript truthiness of a parsed JSON value.\<close>

fun truthy :: "json \<Rightarrow> bool" where
  "truthy JNull = False"
| "truthy (JBool b) = b"
| "truthy (JNum r) = (r \<noteq> 0)"
| "truthy (JStr s) = (s \<noteq> [])"
| "truthy (JArr xs) = True"
| "truthy (JObj kvs) = True"

text \<open>
  The property read \<open>data.vatNumber\<close>: a \<open>TypeError\<close> on \<open>null\<close>, the member (the last
  one of that key, as \<open>JSON.parse\<close> keeps it) on an object, \<open>undefined\<close> (\<open>None\<close>) on
  anything else, since neither a primitive nor an array has such a property.
\<close>

fun getVatNumber :: "json \<Rightarrow> jsError + json option" where
  "getVatNumber JNull = Inl NullPropertyRead"
| "getVatNumber (JObj kvs) = Inr (map_of (rev kvs) ''vatNumber'')"
| "getVatNumber (JBool b) = Inr None"
| "getVatNumber (JNum r) = Inr None"
| "getVatNumber (JStr s) = Inr None"
| "getVatNumber (JArr xs) = Inr None"

text \<open>
  The component state the loader touches, and the console. \<open>companyVat\<close> is declared a
  string, but \<open>setCompanyVat\<close> stores whatever truthy value the body carries.
\<close>

record VatState =
  companyVat :: json
  consoleErrors :: "jsError list"

definition initialVatState :: VatState where
  "initialVatState = \<lparr> companyVat = JStr [], consoleErrors = [] \<rparr>"

definition setCompanyVat :: "json \<Rightarrow> VatState \<Rightarrow> VatState" where
  "setCompanyVat v st = st\<lparr>companyVat := v\<rparr>"

definition consoleError :: "jsError \<Rightarrow> VatState \<Rightarrow> VatState" where
  "consoleError e st = st\<lparr>consoleErrors := consoleErrors st @ [e]\<rparr>"

text \<open>The body of the \<open>try\<close> block, \<open>Inl\<close> when it throws.\<close>

definition loadCompanyVatTry :: "fetchOutcome \<Rightarrow> VatState \<Rightarrow> jsError + VatState" where
  "loadCompanyVatTry outcome st =
     (case outcome of
        NetworkError \<Rightarrow> Inl FetchFailed
      | Resolved res \<Rightarrow>
          if \<not> ok res then Inl (HttpError (status res))
          else (case body res of
                  None \<Rightarrow> Inl JsonSyntaxError
                | Some data \<Rightarrow>
                    (case getVatNumber data of
                       Inl e \<Rightarrow> Inl e
                     | Inr None \<Rightarrow> Inr st
                     | Inr (Some v) \<Rightarrow> if truthy v then Inr (setCompanyVat v st) else Inr st)))"

text \<open>\<open>loadCompanyVat\<close>: the \<open>try\<close> block under its \<open>catch\<close>, which logs.\<close>

definition loadCompanyVat :: "fetchOutcome \<Rightarrow> VatState \<Rightarrow> jsError + VatState" where
  "loadCompanyVat outcome st =
     (case loadCompanyVatTry outcome st of
        Inl e \<Rightarrow> Inr (consoleError e st)
      | Inr st' \<Rightarrow> Inr st')"

text \<open>Decimal digits of a number, for the template string of the URL.\<close>

fun decimal :: "nat \<Rightarrow> string" where
  "decimal n =
     (if n < 10 then [char_of (48 + n)]
      else decimal (n div 10) @ [char_of (48 + n mod 10)])"

definition companyDataUrl :: "nat \<Rightarrow> string" where
  "companyDataUrl cid =
     ''https://www.bigcommerceconnector.com/gem/getCompanyData.php?customerId='' @ decimal cid"

text \<open>
  The effect on \<open>customerId\<close> (\<open>customer?.id\<close>): nothing when it is falsy (\<open>undefined\<close> or
  0), else one load from the network, which is a function from the URL to the outcome.
\<close>

definition companyVatEffect ::
  "(string \<Rightarrow> fetchOutcome) \<Rightarrow> nat option \<Rightarrow> VatState \<Rightarrow> jsError + VatState" where
  "companyVatEffect fetch cid st =
     (case cid of
        None \<Rightarrow> Inr st
      | Some n \<Rightarrow> if n = 0 then Inr st else loadCompanyVat (fetch (companyDataUrl n)) st)"

section \<open>Choosing between the single- and the multi-shipping form\<close>

record CheckoutSettings =
  hasMultiShippingEnabled :: "bool option"

record StoreConfig =
  checkoutSettings :: "CheckoutSettings option"

record 'li Cart =
  lineItems :: 'li

text \<open>\<open>config?.checkoutSettings?.hasMultiShippingEnabled ?? false\<close>\<close>

definition hasMultiShippingEnabledOrFalse :: "StoreConfig option \<Rightarrow> bool" where
  "hasMultiShippingEnabledOrFalse config =
     (case config of None \<Rightarrow> False
      | Some c \<Rightarrow> (case checkoutSettings c of None \<Rightarrow> False
          | Some s \<Rightarrow> (case hasMultiShippingEnabled s of None \<Rightarrow> False | Some b \<Rightarrow> b)))"

text \<open>Truthiness of the optional number \<open>shippingFormRenderTimestamp\<close>.\<close>

definition truthyNumber :: "nat option \<Rightarrow> bool" where
  "truthyNumber t = (case t of None \<Rightarrow> False | Some n \<Rightarrow> n \<noteq> 0)"

text \<open>
  The effect on \<open>shippingFormRenderTimestamp\<close>. \<open>isUsingMultiShipping\<close> is imported from a
  module that is not part of the sources at hand, so it is a parameter. The last argument
  is the parent's \<open>isMultiShippingMode\<close> state, the result is that state after the effect:
  \<open>setIsMultishippingMode\<close> is called only under the guard.
\<close>

definition multiShippingModeEffect ::
  "('c list \<Rightarrow> 'li \<Rightarrow> bool) \<Rightarrow> nat option \<Rightarrow> StoreConfig option \<Rightarrow>
   ('li, 'x) Cart_scheme option \<Rightarrow> 'c list option \<Rightarrow> bool \<Rightarrow> bool" where
  "multiShippingModeEffect isUsingMultiShipping shippingFormRenderTimestamp config cart
       consignments isMultiShippingMode =
     (if truthyNumber shippingFormRenderTimestamp then
        (let hasMultiShippingEnabled = hasMultiShippingEnabledOrFalse config
         in (case cart of None \<Rightarrow> False
             | Some ca \<Rightarrow> (case consignments of None \<Rightarrow> False
                 | Some cs \<Rightarrow> hasMultiShippingEnabled \<and> isUsingMultiShipping cs (lineItems ca))))
      else isMultiShippingMode)"

section \<open>Patching the shipping address\<close>

definition pIvaCustomFieldId :: string where
  "pIvaCustomFieldId = ''field_'' @ pIvaID (addressCustomFields mtxConfig)"

text \<open>
  \<open>patchedShippingAddress\<close>, from the resolved company name, the resolved VAT and the
  \<open>shippingAddress\<close> prop (\<open>None\<close> when undefined).
\<close>

definition patchedShippingAddress ::
  "string \<Rightarrow> string \<Rightarrow> 'a Address_scheme option \<Rightarrow> 'a Address_scheme option" where
  "patchedShippingAddress cName cVat shippingAddress =
     (case shippingAddress of
        None \<Rightarrow> None
      | Some a \<Rightarrow>
          Some (a\<lparr> company := (if cName \<noteq> [] then cName else company a),
                   customFields :=
                     (case customFields a of
                        Some cfs \<Rightarrow>
                          Some (map (\<lambda>customField.
                                  if fieldId customField = pIvaCustomFieldId
                                  then customField\<lparr>fieldValue := FVString cVat\<rparr>
                                  else customField) cfs)
                      | None \<Rightarrow> customFields a) \<rparr>))"

text \<open>What the shipping form renders: the branch on the \<open>isMultiShippingMode\<close> prop.\<close>

datatype 'a shippingView =
    MultiShippingForm
  | SingleShippingForm "'a Address_scheme option"

definition renderShippingForm ::
  "bool \<Rightarrow> string \<Rightarrow> string \<Rightarrow> 'a Address_scheme option \<Rightarrow> 'a shippingView" where
  "renderShippingForm isMultiShippingMode cName cVat shippingAddress =
     (if isMultiShippingMode then MultiShippingForm
      else SingleShippingForm (patchedShippingAddress cName cVat shippingAddress))"

section \<open>Synchronising the inputs of the document\<close>

text \<open>
  An element of the document, with the attributes and properties the interval reads or
  writes (\<open>val\<close> is its \<open>value\<close> property, \<open>backgroundColor\<close> and \<open>cursor\<close> are those of
  its \<open>style\<close>). The document is the list of its elements in document order; an element is
  referred to by its position, so that the two lookups may find one and the same element.
  An \<open>input\<close> element is a text input, as the form renders the company and the custom
  fields.
\<close>

record Element =
  localName :: string
  elemId :: string
  nameAttr :: string
  val :: string
  readOnly :: bool
  backgroundColor :: string
  cursor :: string

text \<open>
  The window: the document, the identifiers of the intervals that are set, and the next
  identifier \<open>setInterval\<close> hands out.
\<close>

record Window =
  document :: "Element list"
  timers :: "nat set"
  nextTimerId :: nat

fun findIndex :: "('a \<Rightarrow> bool) \<Rightarrow> 'a list \<Rightarrow> nat option" where
  "findIndex P [] = None"
| "findIndex P (x # xs) = (if P x then Some 0 else map_option Suc (findIndex P xs))"

text \<open>\<open>document.getElementById\<close>: the first element with that id.\<close>

definition getElementById :: "string \<Rightarrow> Element list \<Rightarrow> nat option" where
  "getElementById i doc = findIndex (\<lambda>e. elemId e = i) doc"

text \<open>
  \<open>document.querySelector('input[name="shippingAddress.company"], input[name="company"]')\<close>:
  the first element in document order that matches either selector.
\<close>

definition querySelectorCompany :: "Element list \<Rightarrow> nat option" where
  "querySelectorCompany doc =
     findIndex (\<lambda>e. localName e = ''input'' \<and>
                    (nameAttr e = ''shippingAddress.company'' \<or> nameAttr e = ''company'')) doc"

text \<open>
  \<open>window.setInterval(callback, delay)\<close>. The delay, in milliseconds, is the time between
  two runs of the callback, which are the \<open>Tick\<close> events below; the window keeps no clock.
\<close>

definition setInterval :: "nat \<Rightarrow> Window \<Rightarrow> nat \<times> Window" where
  "setInterval delay w =
     (nextTimerId w,
      w\<lparr>timers := insert (nextTimerId w) (timers w), nextTimerId := Suc (nextTimerId w)\<rparr>)"

definition clearInterval :: "nat \<Rightarrow> Window \<Rightarrow> Window" where
  "clearInterval i w = w\<lparr>timers := timers w - {i}\<rparr>"

text \<open>
  What the element holds as its value after the assignment \<open>e.value = s\<close>: the value
  setter of a text input strips the line breaks (line feed and carriage return) from the
  string; on an element that is not an input the assignment stores the string as it is.
\<close>

definition stripNewlines :: "string \<Rightarrow> string" where
  "stripNewlines s = filter (\<lambda>c. c \<noteq> CHR 0x0A \<and> c \<noteq> CHR 0x0D) s"

definition storedValue :: "Element \<Rightarrow> string \<Rightarrow> string" where
  "storedValue e s = (if localName e = ''input'' then stripNewlines s else s)"

text \<open>
  The block the callback runs on an input it has found; the source has it twice, once
  with the VAT and once with the company name.
\<close>

definition alignInput :: "string \<Rightarrow> Element \<Rightarrow> Element" where
  "alignInput resolved e =
     e\<lparr> readOnly := True,
        val := (if resolved \<noteq> [] \<and> val e \<noteq> resolved
                then storedValue e resolved else val e),
        backgroundColor := ''#f4f4f4'',
        cursor := ''not-allowed'' \<rparr>"

text \<open>
  The callback of the interval, a closure over its own \<open>intervalId\<close>, the company name and
  the VAT of the render that set it.
\<close>

definition intervalCallback :: "nat \<Rightarrow> string \<Rightarrow> string \<Rightarrow> Window \<Rightarrow> Window" where
  "intervalCallback intervalId cName cVat w =
     (let pIvaInputId = ''field_'' @ pIvaID (addressCustomFields mtxConfig) @ ''Input'';
          pivaInput = getElementById pIvaInputId (document w);
          w1 = (case pivaInput of
                  None \<Rightarrow> w
                | Some i \<Rightarrow> w\<lparr>document := (document w)[i := alignInput cVat (document w ! i)]\<rparr>);
          companyInput = querySelectorCompany (document w1);
          w2 = (case companyInput of
                  None \<Rightarrow> w1
                | Some j \<Rightarrow> w1\<lparr>document := (document w1)[j := alignInput cName (document w1 ! j)]\<rparr>)
      in if pivaInput \<noteq> None \<or> companyInput \<noteq> None
         then clearInterval intervalId w2
         else w2)"

text \<open>
  The effect: it sets the interval, with a period of 300 ms; its result is the identifier
  the cleanup holds.
\<close>

definition domSyncEffect :: "Window \<Rightarrow> nat \<times> Window" where
  "domSyncEffect w = setInterval 300 w"

definition effectCleanup :: "nat \<Rightarrow> Window \<Rightarrow> Window" where
  "effectCleanup intervalId w = clearInterval intervalId w"

text \<open>
  One period of the timer, 300 ms, elapses: the callback runs if the interval is still set.
\<close>

definition tick :: "nat \<Rightarrow> string \<Rightarrow> string \<Rightarrow> Window \<Rightarrow> Window" where
  "tick intervalId cName cVat w =
     (if intervalId \<in> timers w then intervalCallback intervalId cName cVat w else w)"

text \<open>
  What happens while an effect is in place: a period of the timer elapses, or the form
  framework (or the user) changes the document.
\<close>

datatype event = Tick | Render "Element list"

fun run :: "nat \<Rightarrow> string \<Rightarrow> string \<Rightarrow> event list \<Rightarrow> Window \<Rightarrow> Window" where
  "run intervalId cName cVat [] w = w"
| "run intervalId cName cVat (Tick # evs) w =
     run intervalId cName cVat evs (tick intervalId cName cVat w)"
| "run intervalId cName cVat (Render d # evs) w =
     run intervalId cName cVat evs (w\<lparr>document := d\<rparr>)"

text \<open>The document after the events if no callback ran: the last one rendered.\<close>

fun lastRendered :: "event list \<Rightarrow> Element list \<Rightarrow> Element list" where
  "lastRendered [] d = d"
| "lastRendered (Tick # evs) d = lastRendered evs d"
| "lastRendered (Render d' # evs) d = lastRendered evs d'"

definition pivaInputOf :: "Element list \<Rightarrow> nat option" where
  "pivaInputOf doc =
     getElementById (''field_'' @ pIvaID (addressCustomFields mtxConfig) @ ''Input'') doc"

section \<open>Example inputs\<close>

definition billingCompanyField :: FormField where
  "billingCompanyField =
     \<lparr> name = ''billingAddress.company'', id' = ''field_4'', required = True,
       custom = False, label = ''Company Name'' \<rparr>"

definition vatField :: FormField where
  "vatField =
     \<lparr> name = ''field_30'', id' = ''field_30'', required = True,
       custom = True, label = ''Partita IVA'' \<rparr>"

definition cityField :: FormField where
  "cityField =
     \<lparr> name = ''city'', id' = ''field_10'', required = True,
       custom = False, label = ''City'' \<rparr>"

definition exampleGetFields :: "string option \<Rightarrow> FormField list" where
  "exampleGetFields cc = [billingCompanyField, vatField, cityField]"

definition storedAddress :: Address where
  "storedAddress =
     \<lparr> firstName = ''Ada'', lastName = ''Rossi'', company = ''Stored Srl'',
       address1 = ''Via Roma 1'', city = ''Napoli'', countryCode = ''IT'',
       postalCode = ''80100'', phone = ''081'',
       customFields = Some [\<lparr>fieldId = ''field_30'', fieldValue = FVString ''old''\<rparr>,
                            \<lparr>fieldId = ''field_32'', fieldValue = FVString ''si''\<rparr>] \<rparr>"

definition editedAddress :: Address where
  "editedAddress = storedAddress\<lparr>company := ''Edited Spa'', customFields := None\<rparr>"

definition acmeCustomer :: "unit Customer" where
  "acmeCustomer =
     \<lparr> customerId = 7, isGuest = False, addresses = [storedAddress],
       customerGroup = Some \<lparr>groupId = 2, groupName = ''Acme''\<rparr> \<rparr>"

definition ungroupedCustomer :: "unit Customer" where
  "ungroupedCustomer = acmeCustomer\<lparr>customerGroup := None\<rparr>"

definition newCustomer :: "unit Customer" where
  "newCustomer = acmeCustomer\<lparr>customerGroup := None, addresses := []\<rparr>"

definition vatResponse :: Response where
  "vatResponse = \<lparr> status = 200, body = Some (JObj [(''vatNumber'', JStr ''IT123'')]) \<rparr>"

definition serverErrorResponse :: Response where
  "serverErrorResponse = \<lparr> status = 500, body = None \<rparr>"

definition emptyVatResponse :: Response where
  "emptyVatResponse = \<lparr> status = 200, body = Some (JObj [(''vatNumber'', JStr [])]) \<rparr>"

definition nullResponse :: Response where
  "nullResponse = \<lparr> status = 200, body = Some JNull \<rparr>"

definition enabledConfig :: StoreConfig where
  "enabledConfig = \<lparr> checkoutSettings = Some \<lparr> hasMultiShippingEnabled = Some True \<rparr> \<rparr>"

definition disabledConfig :: StoreConfig where
  "disabledConfig = \<lparr> checkoutSettings = Some \<lparr> hasMultiShippingEnabled = Some False \<rparr> \<rparr>"

definition exampleCart :: "nat list Cart" where
  "exampleCart = \<lparr> lineItems = [1, 2] \<rparr>"

text \<open>A stand-in for \<open>isUsingMultiShipping\<close>: more than one consignment.\<close>

definition moreThanOneConsignment :: "nat list list \<Rightarrow> nat list \<Rightarrow> bool" where
  "moreThanOneConsignment consignments items \<longleftrightarrow> 1 < length consignments"

definition emailInput :: Element where
  "emailInput =
     \<lparr> localName = ''input'', elemId = ''email'', nameAttr = ''email'',
       val = ''a@example.com'', readOnly = False, backgroundColor = [], cursor = [] \<rparr>"

definition vatInput :: Element where
  "vatInput =
     \<lparr> localName = ''input'', elemId = ''field_30Input'',
       nameAttr = ''shippingAddress.customFields.field_30'',
       val = [], readOnly = False, backgroundColor = [], cursor = [] \<rparr>"

definition companyInputElement :: Element where
  "companyInputElement =
     \<lparr> localName = ''input'', elemId = ''companyInput'',
       nameAttr = ''shippingAddress.company'',
       val = ''Old'', readOnly = False, backgroundColor = [], cursor = [] \<rparr>"

text \<open>One input that carries both the id of the VAT input and the name of the company input.\<close>

definition aliasedInput :: Element where
  "aliasedInput =
     \<lparr> localName = ''input'', elemId = ''field_30Input'', nameAttr = ''company'',
       val = [], readOnly = False, backgroundColor = [], cursor = [] \<rparr>"

text \<open>The same input after the user has typed into it.\<close>

definition typedAliasedInput :: Element where
  "typedAliasedInput = aliasedInput\<lparr>val := ''typed''\<rparr>"

text \<open>A VAT number with a line break in it: \<open>IT\<close>, carriage return, line feed, \<open>123\<close>.\<close>

definition vatWithLineBreak :: string where
  "vatWithLineBreak = ''IT'' @ [CHR 0x0D, CHR 0x0A] @ ''123''"

definition windowOf :: "Element list \<Rightarrow> Window" where
  "windowOf d = \<lparr> document = d, timers = {}, nextTimerId = 1 \<rparr>"


section \<open>The requirement patchers\<close>

text \<open>
  C1 (as amended). Both patchers return a list of the same length and order as
  \<open>getFields\<close> gives. At every position the output differs from the input in \<open>required\<close>
  at most; \<open>required\<close> stays true exactly when it was true and the field matches neither
  a VAT alias nor a company alias of that form. For the billing patcher the company
  aliases are the names \<open>company\<close>, \<open>billingAddress.company\<close>, \<open>shippingAddress.company\<close>
  and the id \<open>company\<close>; for the shipping patcher they are the names \<open>company\<close>,
  \<open>shippingAddress.company\<close> and the id \<open>company\<close> only.
\<close>

theorem patchers_keep_order_and_frame:
  "length (getFieldsWithPivaReadonly getFields cc) = length (getFields cc) \<and>
   length (getFieldsWithPivaRequired getFields cc) = length (getFields cc) \<and>
   (\<forall>i < length (getFields cc).
      (getFieldsWithPivaReadonly getFields cc ! i)\<lparr>required := required (getFields cc ! i)\<rparr>
         = getFields cc ! i \<and>
      (getFieldsWithPivaRequired getFields cc ! i)\<lparr>required := required (getFields cc ! i)\<rparr>
         = getFields cc ! i \<and>
      (required (getFieldsWithPivaReadonly getFields cc ! i) \<longleftrightarrow>
         required (getFields cc ! i) \<and> \<not> vatAlias (getFields cc ! i) \<and>
         \<not> companyAlias (getFields cc ! i)) \<and>
      (required (getFieldsWithPivaRequired getFields cc ! i) \<longleftrightarrow>
         required (getFields cc ! i) \<and> \<not> vatAlias (getFields cc ! i) \<and>
         \<not> shippingCompanyAlias (getFields cc ! i)))"
  by (simp add: getFieldsWithPivaReadonly_def getFieldsWithPivaRequired_def Let_def
        vatAlias_def companyAlias_def shippingCompanyAlias_def)

text \<open>
  The theorem at three fields, a billing-address company field, the VAT field and the
  city field, all required: the billing patcher clears the first two, the shipping patcher
  the VAT field only, and the city field comes back as it was.
\<close>

theorem patchers_keep_order_and_frame_witness:
  "length (getFieldsWithPivaReadonly exampleGetFields None) = 3 \<and>
   length (getFieldsWithPivaRequired exampleGetFields None) = 3 \<and>
   \<not> required (getFieldsWithPivaReadonly exampleGetFields None ! 0) \<and>
   \<not> required (getFieldsWithPivaReadonly exampleGetFields None ! 1) \<and>
   \<not> required (getFieldsWithPivaRequired exampleGetFields None ! 1) \<and>
   getFieldsWithPivaReadonly exampleGetFields None ! 2 = cityField \<and>
   getFieldsWithPivaRequired exampleGetFields None ! 2 = cityField"
  using patchers_keep_order_and_frame [of exampleGetFields None]
  by (simp add: getFieldsWithPivaReadonly_def getFieldsWithPivaRequired_def Let_def
        exampleGetFields_def billingCompanyField_def vatField_def cityField_def mtxConfig_def)

text \<open>
  C1 as it is worded fails on the shipping patcher: a required field named
  \<open>billingAddress.company\<close> is a company alias, and the shipping patcher leaves it required.
\<close>

theorem shipping_patcher_keeps_billing_alias_required:
  "companyAlias (exampleGetFields None ! 0) \<and>
   required (getFieldsWithPivaRequired exampleGetFields None ! 0)"
  by (simp add: getFieldsWithPivaRequired_def Let_def companyAlias_def
        exampleGetFields_def billingCompanyField_def mtxConfig_def)

section \<open>The company name\<close>

text \<open>
  C4. The resolved company name follows the fixed precedence, where a name is present when
  it is a non-empty string: the customer-group name if present; otherwise the company of
  the first stored address if present; otherwise the company of the address being edited
  if present; otherwise the empty string. In particular a customer-group name \<open>Acme\<close>
  gives \<open>Acme\<close> whatever the stored addresses and the edited address hold.
\<close>

theorem companyName_precedence:
  "(\<forall>g. customerGroup c = Some g \<and> groupName g \<noteq> [] \<longrightarrow>
        companyName (Some c) edited = groupName g) \<and>
   (\<forall>a rest. (\<forall>g. customerGroup c = Some g \<longrightarrow> groupName g = []) \<and>
        addresses c = a # rest \<and> company a \<noteq> [] \<longrightarrow>
        companyName (Some c) edited = company a) \<and>
   (\<forall>e. (\<forall>g. customerGroup c = Some g \<longrightarrow> groupName g = []) \<and>
        (\<forall>a rest. addresses c = a # rest \<longrightarrow> company a = []) \<and>
        edited = Some e \<and> company e \<noteq> [] \<longrightarrow>
        companyName (Some c) edited = company e) \<and>
   ((\<forall>g. customerGroup c = Some g \<longrightarrow> groupName g = []) \<and>
    (\<forall>a rest. addresses c = a # rest \<longrightarrow> company a = []) \<and>
    (\<forall>e. edited = Some e \<longrightarrow> company e = []) \<longrightarrow>
        companyName (Some c) edited = []) \<and>
   (\<forall>g. customerGroup c = Some g \<and> groupName g = ''Acme'' \<longrightarrow>
        companyName (Some c) edited = ''Acme'')"
  by (auto simp: companyName_def companyNameFromGroup_def companyNameFromAddress_def
        jsOr_def jsOrDefault_def truthyString_def split: option.splits list.splits)

text \<open>
  The four branches at four inputs: a customer in the group \<open>Acme\<close>, the same customer
  without a group, a customer with neither group nor stored address who edits an address,
  and that customer with no address at all.
\<close>

theorem companyName_precedence_witness:
  "companyName (Some acmeCustomer) (Some editedAddress) = ''Acme'' \<and>
   companyName (Some ungroupedCustomer) (Some editedAddress) = ''Stored Srl'' \<and>
   companyName (Some newCustomer) (Some editedAddress) = ''Edited Spa'' \<and>
   companyName (Some newCustomer) (None :: Address option) = []"
proof -
  have g: "customerGroup acmeCustomer = Some \<lparr>groupId = 2, groupName = ''Acme''\<rparr>"
    by (simp add: acmeCustomer_def)
  have a: "companyName (Some acmeCustomer) (Some editedAddress) = ''Acme''"
    using companyName_precedence [of acmeCustomer "Some editedAddress"] g by simp
  have u: "customerGroup ungroupedCustomer = None"
    "addresses ungroupedCustomer = storedAddress # []" "company storedAddress \<noteq> []"
    by (simp_all add: ungroupedCustomer_def acmeCustomer_def storedAddress_def)
  have b: "companyName (Some ungroupedCustomer) (Some editedAddress) = ''Stored Srl''"
    using companyName_precedence [of ungroupedCustomer "Some editedAddress"] u
    by (simp add: storedAddress_def)
  have n: "customerGroup newCustomer = None" "addresses newCustomer = []"
    "company editedAddress = ''Edited Spa''"
    by (simp_all add: newCustomer_def acmeCustomer_def editedAddress_def)
  have c: "companyName (Some newCustomer) (Some editedAddress) = ''Edited Spa''"
    using companyName_precedence [of newCustomer "Some editedAddress"] n by simp
  have d: "companyName (Some newCustomer) (None :: Address option) = []"
    using companyName_precedence [of newCustomer "None :: Address option"] n by simp
  from a b c d show ?thesis by simp
qed

section \<open>Loading the VAT number: what the state becomes\<close>

text \<open>
  C5. A successful response (status 2xx) with the body \<open>{vatNumber: "IT123"}\<close> sets the
  resolved VAT to \<open>IT123\<close>. A network error or a status outside 2xx is caught and logged
  and leaves the VAT as it was, so that from the initial state it is still the empty
  string. Whatever the outcome, the load and the effect return: nothing is thrown to the
  caller.
\<close>

theorem loadCompanyVat_outcomes:
  "(ok res \<and> body res = Some (JObj [(''vatNumber'', JStr ''IT123'')]) \<longrightarrow>
      loadCompanyVat (Resolved res) st = Inr (st\<lparr>companyVat := JStr ''IT123''\<rparr>)) \<and>
   loadCompanyVat NetworkError st
     = Inr (st\<lparr>consoleErrors := consoleErrors st @ [FetchFailed]\<rparr>) \<and>
   (\<not> ok res \<longrightarrow>
      loadCompanyVat (Resolved res) st =
        Inr (st\<lparr>consoleErrors := consoleErrors st @ [HttpError (status res)]\<rparr>)) \<and>
   (outcome = NetworkError \<or> (\<exists>r. outcome = Resolved r \<and> \<not> ok r) \<longrightarrow>
      (\<exists>st'. loadCompanyVat outcome initialVatState = Inr st' \<and>
             companyVat st' = JStr [] \<and> consoleErrors st' \<noteq> [])) \<and>
   (\<exists>st'. loadCompanyVat outcome st = Inr st') \<and>
   (\<exists>st'. companyVatEffect fetch cid st = Inr st') \<and>
   (n \<noteq> 0 \<and> fetch (companyDataUrl n) = Resolved res \<and> ok res \<and>
    body res = Some (JObj [(''vatNumber'', JStr ''IT123'')]) \<longrightarrow>
      companyVatEffect fetch (Some n) initialVatState
        = Inr (initialVatState\<lparr>companyVat := JStr ''IT123''\<rparr>))"
  by (auto simp: loadCompanyVat_def loadCompanyVatTry_def setCompanyVat_def consoleError_def
        companyVatEffect_def initialVatState_def
        split: sum.splits option.splits fetchOutcome.splits)

text \<open>The theorem at a 200 response carrying \<open>IT123\<close> and at a 500 response.\<close>

theorem loadCompanyVat_outcomes_witness:
  "ok vatResponse \<and>
   loadCompanyVat (Resolved vatResponse) initialVatState
     = Inr \<lparr>companyVat = JStr ''IT123'', consoleErrors = []\<rparr> \<and>
   \<not> ok serverErrorResponse \<and>
   loadCompanyVat (Resolved serverErrorResponse) initialVatState
     = Inr \<lparr>companyVat = JStr [], consoleErrors = [HttpError 500]\<rparr> \<and>
   loadCompanyVat NetworkError initialVatState
     = Inr \<lparr>companyVat = JStr [], consoleErrors = [FetchFailed]\<rparr>"
proof -
  have h: "ok vatResponse \<and> body vatResponse = Some (JObj [(''vatNumber'', JStr ''IT123'')])"
    by (simp add: vatResponse_def ok_def)
  have a: "loadCompanyVat (Resolved vatResponse) initialVatState
             = Inr \<lparr>companyVat = JStr ''IT123'', consoleErrors = []\<rparr>"
    using loadCompanyVat_outcomes [of vatResponse initialVatState] h
    by (simp add: initialVatState_def)
  have k: "\<not> ok serverErrorResponse" "status serverErrorResponse = 500"
    by (simp_all add: serverErrorResponse_def ok_def)
  have b: "loadCompanyVat (Resolved serverErrorResponse) initialVatState
             = Inr \<lparr>companyVat = JStr [], consoleErrors = [HttpError 500]\<rparr>"
    using loadCompanyVat_outcomes [of serverErrorResponse initialVatState] k
    by (simp add: initialVatState_def)
  have c: "loadCompanyVat NetworkError initialVatState
             = Inr \<lparr>companyVat = JStr [], consoleErrors = [FetchFailed]\<rparr>"
    using loadCompanyVat_outcomes [of vatResponse initialVatState]
    by (simp add: initialVatState_def)
  from h k a b c show ?thesis by simp
qed

text \<open>
  C9 (as amended). After a successful response whose body is a JSON value other than
  \<open>null\<close> and has no truthy \<open>vatNumber\<close> member (absent, \<open>null\<close>, empty string or any other
  falsy value), the state is exactly what it was: the VAT is not updated and nothing is
  logged. After a successful response whose body is \<open>null\<close> the VAT is not updated either,
  but the failed property read is caught and logged.
\<close>

theorem loadCompanyVat_without_vatNumber:
  "(ok res \<and> body res = Some data \<and> data \<noteq> JNull \<and>
      (\<forall>v. getVatNumber data = Inr (Some v) \<longrightarrow> \<not> truthy v) \<longrightarrow>
      loadCompanyVat (Resolved res) st = Inr st) \<and>
   (ok res \<and> body res = Some JNull \<longrightarrow>
      loadCompanyVat (Resolved res) st =
        Inr (st\<lparr>consoleErrors := consoleErrors st @ [NullPropertyRead]\<rparr>))"
  by (cases data)
     (auto simp: loadCompanyVat_def loadCompanyVatTry_def setCompanyVat_def consoleError_def
        split: sum.splits option.splits)

text \<open>The theorem at a 200 response whose \<open>vatNumber\<close> is the empty string.\<close>

theorem loadCompanyVat_without_vatNumber_witness:
  "ok emptyVatResponse \<and>
   body emptyVatResponse = Some (JObj [(''vatNumber'', JStr [])]) \<and>
   JObj [(''vatNumber'', JStr [])] \<noteq> JNull \<and>
   getVatNumber (JObj [(''vatNumber'', JStr [])]) = Inr (Some (JStr [])) \<and>
   \<not> truthy (JStr []) \<and>
   loadCompanyVat (Resolved emptyVatResponse) \<lparr>companyVat = JStr ''IT9'', consoleErrors = []\<rparr>
     = Inr \<lparr>companyVat = JStr ''IT9'', consoleErrors = []\<rparr>"
proof -
  have h: "ok emptyVatResponse" "body emptyVatResponse = Some (JObj [(''vatNumber'', JStr [])])"
    by (simp_all add: emptyVatResponse_def ok_def)
  have v: "getVatNumber (JObj [(''vatNumber'', JStr [])]) = Inr (Some (JStr []))"
    by simp
  from h v
    loadCompanyVat_without_vatNumber
      [of emptyVatResponse "JObj [(''vatNumber'', JStr [])]"
          "\<lparr>companyVat = JStr ''IT9'', consoleErrors = []\<rparr>"]
  show ?thesis by simp
qed

text \<open>
  C9 as it is worded fails when the body is the JSON value \<open>null\<close>: the response is
  successful and valid JSON, there is no \<open>vatNumber\<close>, and an error is logged.
\<close>

theorem loadCompanyVat_null_body_logs:
  "ok nullResponse \<and> body nullResponse = Some JNull \<and>
   loadCompanyVat (Resolved nullResponse) initialVatState
     = Inr \<lparr>companyVat = JStr [], consoleErrors = [NullPropertyRead]\<rparr>"
  by (simp add: nullResponse_def ok_def loadCompanyVat_def loadCompanyVatTry_def
        consoleError_def initialVatState_def)

section \<open>The shipping mode\<close>

text \<open>
  C6 (as amended). When the effect runs with a truthy \<open>shippingFormRenderTimestamp\<close>, the
  mode becomes multi-shipping exactly when the multi-shipping flag is enabled and
  \<open>isUsingMultiShipping\<close> holds of the consignments and the line items of the cart, and with
  the flag disabled it becomes single-shipping whatever the consignments are. When the
  timestamp is undefined or zero the effect leaves the mode as the parent holds it. The
  form rendered is the multi-shipping one exactly when the mode is multi-shipping.
\<close>

theorem multiShippingModeEffect_guarded:
  "(truthyNumber ts \<longrightarrow>
      multiShippingModeEffect isUsing ts config (Some cart) (Some consignments) mode =
        (hasMultiShippingEnabledOrFalse config \<and> isUsing consignments (lineItems cart))) \<and>
   (truthyNumber ts \<and> \<not> hasMultiShippingEnabledOrFalse config \<longrightarrow>
      multiShippingModeEffect isUsing ts config cartOpt consignmentsOpt mode = False) \<and>
   (\<not> truthyNumber ts \<longrightarrow>
      multiShippingModeEffect isUsing ts config cartOpt consignmentsOpt mode = mode) \<and>
   (renderShippingForm m cName cVat addr = MultiShippingForm \<longleftrightarrow> m)"
  by (auto simp: multiShippingModeEffect_def renderShippingForm_def Let_def split: option.splits)

text \<open>
  The theorem at a cart split over two consignments, at a set timestamp: multi-shipping
  with the flag enabled, single-shipping with the flag disabled.
\<close>

theorem multiShippingModeEffect_guarded_witness:
  "truthyNumber (Some 1700000000) \<and>
   hasMultiShippingEnabledOrFalse (Some enabledConfig) \<and>
   \<not> hasMultiShippingEnabledOrFalse (Some disabledConfig) \<and>
   moreThanOneConsignment [[1], [2]] (lineItems exampleCart) \<and>
   multiShippingModeEffect moreThanOneConsignment (Some 1700000000) (Some enabledConfig)
     (Some exampleCart) (Some [[1], [2]]) False \<and>
   \<not> multiShippingModeEffect moreThanOneConsignment (Some 1700000000) (Some disabledConfig)
     (Some exampleCart) (Some [[1], [2]]) True"
proof -
  have t: "truthyNumber (Some 1700000000)"
    by (simp add: truthyNumber_def)
  have e: "hasMultiShippingEnabledOrFalse (Some enabledConfig)"
    "\<not> hasMultiShippingEnabledOrFalse (Some disabledConfig)"
    by (simp_all add: hasMultiShippingEnabledOrFalse_def enabledConfig_def disabledConfig_def)
  have u: "moreThanOneConsignment [[1], [2]] (lineItems exampleCart)"
    by (simp add: moreThanOneConsignment_def)
  have a: "multiShippingModeEffect moreThanOneConsignment (Some 1700000000)
             (Some enabledConfig) (Some exampleCart) (Some [[1], [2]]) False"
    using multiShippingModeEffect_guarded
            [where ts = "Some 1700000000" and isUsing = moreThanOneConsignment
               and config = "Some enabledConfig" and cart = exampleCart
               and consignments = "[[1], [2]]" and mode = False
               and cartOpt = "Some exampleCart" and consignmentsOpt = "Some [[1], [2]]"
               and m = True and cName = "[]" and cVat = "[]"
               and addr = "None :: Address option"] t e u
    by simp
  have b: "\<not> multiShippingModeEffect moreThanOneConsignment (Some 1700000000)
             (Some disabledConfig) (Some exampleCart) (Some [[1], [2]]) True"
    using multiShippingModeEffect_guarded
            [where ts = "Some 1700000000" and isUsing = moreThanOneConsignment
               and config = "Some disabledConfig" and cart = exampleCart
               and consignments = "[[1], [2]]" and mode = True
               and cartOpt = "Some exampleCart" and consignmentsOpt = "Some [[1], [2]]"
               and m = True and cName = "[]" and cVat = "[]"
               and addr = "None :: Address option"] t e
    by simp
  from t e u a b show ?thesis by simp
qed

text \<open>
  C6 as it is worded fails when \<open>shippingFormRenderTimestamp\<close> is undefined: with the flag
  enabled and the cart split over two consignments the mode stays single-shipping, and
  with the flag disabled a multi-shipping mode stays multi-shipping.
\<close>

theorem mode_unchanged_without_timestamp:
  "hasMultiShippingEnabledOrFalse (Some enabledConfig) \<and>
   moreThanOneConsignment [[1], [2]] (lineItems exampleCart) \<and>
   \<not> multiShippingModeEffect moreThanOneConsignment None (Some enabledConfig)
       (Some exampleCart) (Some [[1], [2]]) False \<and>
   \<not> hasMultiShippingEnabledOrFalse (Some disabledConfig) \<and>
   multiShippingModeEffect moreThanOneConsignment None (Some disabledConfig)
     (Some exampleCart) (Some [[1], [2]]) True \<and>
   renderShippingForm
     (multiShippingModeEffect moreThanOneConsignment None (Some disabledConfig)
        (Some exampleCart) (Some [[1], [2]]) True)
     ''Acme'' ''IT123'' (Some storedAddress) = MultiShippingForm"
  by (simp add: multiShippingModeEffect_def truthyNumber_def hasMultiShippingEnabledOrFalse_def
        enabledConfig_def disabledConfig_def moreThanOneConsignment_def renderShippingForm_def)

section \<open>The patched shipping address\<close>

text \<open>
  C7. An undefined shipping address stays undefined. A defined one is patched into an
  address that agrees with it on every attribute except \<open>company\<close> and \<open>customFields\<close>;
  its company is the resolved name, or the original company when the resolved name is
  empty; \<open>customFields\<close> that is not an array stays as it is, and an array keeps its length
  and order, each entry keeps every attribute but \<open>fieldValue\<close>, the entries whose
  \<open>fieldId\<close> is \<open>field_<pIvaID>\<close> get the resolved VAT as \<open>fieldValue\<close>, and every other
  entry is unchanged.
\<close>

theorem patchedShippingAddress_frame:
  "patchedShippingAddress cName cVat None = None \<and>
   (\<exists>p. patchedShippingAddress cName cVat (Some a) = Some p \<and>
      p\<lparr>company := company a, customFields := customFields a\<rparr> = a \<and>
      company p = (if cName \<noteq> [] then cName else company a) \<and>
      (customFields a = None \<longrightarrow> customFields p = None) \<and>
      (\<forall>cfs. customFields a = Some cfs \<longrightarrow>
         (\<exists>cfs'. customFields p = Some cfs' \<and> length cfs' = length cfs \<and>
            (\<forall>i < length cfs.
               (cfs' ! i)\<lparr>fieldValue := fieldValue (cfs ! i)\<rparr> = cfs ! i \<and>
               (fieldId (cfs ! i) = ''field_'' @ pIvaID (addressCustomFields mtxConfig) \<longrightarrow>
                  fieldValue (cfs' ! i) = FVString cVat) \<and>
               (fieldId (cfs ! i) \<noteq> ''field_'' @ pIvaID (addressCustomFields mtxConfig) \<longrightarrow>
                  cfs' ! i = cfs ! i)))))"
  by (auto simp: patchedShippingAddress_def pIvaCustomFieldId_def)

text \<open>
  The theorem at a stored address with the VAT custom field and one other custom field,
  once with a resolved name and once without.
\<close>

theorem patchedShippingAddress_frame_witness:
  "patchedShippingAddress ''Acme'' ''IT123'' (Some storedAddress) =
     Some (storedAddress\<lparr> company := ''Acme'',
        customFields := Some [\<lparr>fieldId = ''field_30'', fieldValue = FVString ''IT123''\<rparr>,
                              \<lparr>fieldId = ''field_32'', fieldValue = FVString ''si''\<rparr>] \<rparr>) \<and>
   patchedShippingAddress [] ''IT123'' (Some editedAddress) = Some editedAddress"
proof -
  have "\<exists>p. patchedShippingAddress ''Acme'' ''IT123'' (Some storedAddress) = Some p"
    using patchedShippingAddress_frame [of "''Acme''" "''IT123''" storedAddress] by blast
  then show ?thesis
    by (auto simp: patchedShippingAddress_def pIvaCustomFieldId_def mtxConfig_def
          storedAddress_def editedAddress_def)
qed

section \<open>The interval on the document\<close>

subsection \<open>Lookups and the callback\<close>

lemma findIndex_Some:
  "findIndex P xs = Some i \<Longrightarrow> i < length xs \<and> P (xs ! i)"
proof (induction xs arbitrary: i)
  case Nil
  then show ?case by simp
next
  case (Cons x xs)
  then show ?case by (cases "P x") auto
qed

lemma findIndex_update:
  "i < length xs \<Longrightarrow> P y = P (xs ! i) \<Longrightarrow> findIndex P (xs[i := y]) = findIndex P xs"
proof (induction xs arbitrary: i)
  case Nil
  then show ?case by simp
next
  case (Cons x xs)
  then show ?case by (cases i) simp_all
qed

lemma alignInput_attrs [simp]:
  "elemId (alignInput r e) = elemId e"
  "nameAttr (alignInput r e) = nameAttr e"
  "localName (alignInput r e) = localName e"
  "readOnly (alignInput r e)"
  "backgroundColor (alignInput r e) = ''#f4f4f4''"
  "cursor (alignInput r e) = ''not-allowed''"
  "val (alignInput r e) = (if r \<noteq> [] \<and> val e \<noteq> r then storedValue e r else val e)"
  by (auto simp: alignInput_def)

lemma storedValue_IT123: "storedValue e ''IT123'' = ''IT123''"
  by (simp add: storedValue_def stripNewlines_def)

lemma alignInput_frame:
  "(alignInput r e)\<lparr>readOnly := readOnly e, val := val e,
      backgroundColor := backgroundColor e, cursor := cursor e\<rparr> = e"
  by (simp add: alignInput_def)

lemma querySelectorCompany_align:
  "i < length d \<Longrightarrow>
   querySelectorCompany (d[i := alignInput r (d ! i)]) = querySelectorCompany d"
  unfolding querySelectorCompany_def by (rule findIndex_update) simp_all

lemma getElementById_bound: "getElementById s d = Some i \<Longrightarrow> i < length d"
  unfolding getElementById_def by (drule findIndex_Some) simp

lemma querySelectorCompany_bound: "querySelectorCompany d = Some i \<Longrightarrow> i < length d"
  unfolding querySelectorCompany_def by (drule findIndex_Some) simp

text \<open>The document and the timers after the callback, by what the two lookups found.\<close>

lemma intervalCallback_document:
  "document (intervalCallback iid cName cVat w) =
     (let d = document w;
          d1 = (case pivaInputOf d of None \<Rightarrow> d | Some i \<Rightarrow> d[i := alignInput cVat (d ! i)])
      in case querySelectorCompany d of None \<Rightarrow> d1
         | Some j \<Rightarrow> d1[j := alignInput cName (d1 ! j)])"
  by (auto simp: intervalCallback_def pivaInputOf_def Let_def clearInterval_def
        querySelectorCompany_align getElementById_bound split: option.splits)

lemma intervalCallback_timers:
  "timers (intervalCallback iid cName cVat w) =
     (if pivaInputOf (document w) = None \<and> querySelectorCompany (document w) = None
      then timers w else timers w - {iid})"
  by (auto simp: intervalCallback_def pivaInputOf_def Let_def clearInterval_def
        querySelectorCompany_align getElementById_bound split: option.splits)

lemma intervalCallback_nextTimerId:
  "nextTimerId (intervalCallback iid cName cVat w) = nextTimerId w"
  by (auto simp: intervalCallback_def Let_def clearInterval_def split: option.splits)

lemma tick_inactive: "iid \<notin> timers w \<Longrightarrow> tick iid cName cVat w = w"
  by (simp add: tick_def)

lemma run_inactive:
  "iid \<notin> timers w \<Longrightarrow>
   run iid cName cVat evs w = w\<lparr>document := lastRendered evs (document w)\<rparr>"
proof (induction evs arbitrary: w)
  case Nil
  then show ?case by simp
next
  case (Cons ev evs)
  then show ?case by (cases ev) (simp_all add: tick_inactive)
qed


lemma tick_no_targets:
  "pivaInputOf (document w) = None \<Longrightarrow> querySelectorCompany (document w) = None \<Longrightarrow>
   tick iid cName cVat w = w"
  by (simp add: tick_def intervalCallback_def pivaInputOf_def Let_def)

lemma run_no_targets:
  "pivaInputOf (document w) = None \<and> querySelectorCompany (document w) = None \<Longrightarrow>
   \<forall>d. Render d \<in> set evs \<longrightarrow> pivaInputOf d = None \<and> querySelectorCompany d = None \<Longrightarrow>
   timers (run iid cName cVat evs w) = timers w"
proof (induction evs arbitrary: w)
  case Nil
  then show ?case by simp
next
  case (Cons ev evs)
  show ?case
  proof (cases ev)
    case Tick
    with Cons show ?thesis by (simp add: tick_no_targets)
  next
    case (Render d)
    with Cons.prems have "timers (run iid cName cVat evs (w\<lparr>document := d\<rparr>)) = timers (w\<lparr>document := d\<rparr>)"
      by (intro Cons.IH) simp_all
    with Render show ?thesis by simp
  qed
qed

lemma callback_length:
  "length (document (intervalCallback iid cName cVat w)) = length (document w)"
  by (simp add: intervalCallback_document Let_def split: option.splits)

lemma callback_nth:
  assumes "k < length (document w)"
  shows "document (intervalCallback iid cName cVat w) ! k =
     (if querySelectorCompany (document w) = Some k
      then alignInput cName
             (if pivaInputOf (document w) = Some k then alignInput cVat (document w ! k)
              else document w ! k)
      else if pivaInputOf (document w) = Some k then alignInput cVat (document w ! k)
      else document w ! k)"
  using assms
  by (auto simp: intervalCallback_document Let_def nth_list_update split: option.splits)

subsection \<open>The first tick with the VAT input in the document\<close>

text \<open>
  C2 (as amended). Let the VAT input (the first element with id \<open>field_<pIvaID>Input\<close>) be
  in the document, the resolved VAT be \<open>IT123\<close>, and the interval of the effect be still
  set, that is, no earlier tick has found one of the two inputs and cleared it. Provided
  that element is not also the one the company selector finds, or the resolved company
  name is empty or \<open>IT123\<close> itself, the next tick of the 300 ms interval leaves the element
  with the value \<open>IT123\<close> and read-only and clears the interval; from then on, whatever is
  rendered and however many periods elapse, the callback writes nothing: the document is
  the one last rendered.
\<close>

theorem vat_input_synchronised_on_first_tick:
  assumes "pivaInputOf (document w) = Some i" and "iid \<in> timers w"
    and "querySelectorCompany (document w) \<noteq> Some i \<or> cName = [] \<or> cName = ''IT123''"
  shows "val (document (tick iid cName ''IT123'' w) ! i) = ''IT123'' \<and>
         readOnly (document (tick iid cName ''IT123'' w) ! i) \<and>
         iid \<notin> timers (tick iid cName ''IT123'' w) \<and>
         (\<forall>evs. run iid cName ''IT123'' evs (tick iid cName ''IT123'' w) =
                (tick iid cName ''IT123'' w)\<lparr>document :=
                   lastRendered evs (document (tick iid cName ''IT123'' w))\<rparr>)"
proof -
  let ?w' = "tick iid cName ''IT123'' w"
  from assms(1) have i: "i < length (document w)"
    by (simp add: pivaInputOf_def getElementById_bound)
  have t: "iid \<notin> timers ?w'"
    using assms(1,2) by (simp add: tick_def intervalCallback_timers)
  have n: "document ?w' ! i =
     (if querySelectorCompany (document w) = Some i
      then alignInput cName (alignInput ''IT123'' (document w ! i))
      else alignInput ''IT123'' (document w ! i))"
    using assms(1,2) by (simp add: tick_def callback_nth [OF i])
  have r: "readOnly (document ?w' ! i)"
    by (simp add: n)
  have v: "val (document ?w' ! i) = ''IT123''"
  proof (cases "querySelectorCompany (document w) = Some i")
    case False
    then show ?thesis by (simp add: n storedValue_IT123)
  next
    case True
    with assms(3) have "cName = [] \<or> cName = ''IT123''" by simp
    with True show ?thesis by (auto simp: n storedValue_IT123)
  qed
  from t have "\<forall>evs. run iid cName ''IT123'' evs ?w'
                 = ?w'\<lparr>document := lastRendered evs (document ?w')\<rparr>"
    by (simp add: run_inactive)
  with t r v show ?thesis by simp
qed

text \<open>
  The theorem at a document with an e-mail input, the VAT input and the company input,
  right after the effect has set the interval; afterwards the VAT input is rendered anew
  and a period elapses without a write.
\<close>

theorem vat_input_synchronised_on_first_tick_witness:
  "pivaInputOf (document (snd (domSyncEffect
       (windowOf [emailInput, vatInput, companyInputElement])))) = Some 1 \<and>
   fst (domSyncEffect (windowOf [emailInput, vatInput, companyInputElement]))
     \<in> timers (snd (domSyncEffect (windowOf [emailInput, vatInput, companyInputElement]))) \<and>
   querySelectorCompany (document (snd (domSyncEffect
       (windowOf [emailInput, vatInput, companyInputElement])))) \<noteq> Some 1 \<and>
   val (document (tick (fst (domSyncEffect (windowOf [emailInput, vatInput, companyInputElement])))
          ''Acme'' ''IT123''
          (snd (domSyncEffect (windowOf [emailInput, vatInput, companyInputElement]))))
        ! 1) = ''IT123'' \<and>
   readOnly (document (tick (fst (domSyncEffect (windowOf [emailInput, vatInput, companyInputElement])))
          ''Acme'' ''IT123''
          (snd (domSyncEffect (windowOf [emailInput, vatInput, companyInputElement]))))
        ! 1) \<and>
   timers (tick (fst (domSyncEffect (windowOf [emailInput, vatInput, companyInputElement])))
          ''Acme'' ''IT123''
          (snd (domSyncEffect (windowOf [emailInput, vatInput, companyInputElement])))) = {} \<and>
   document (run (fst (domSyncEffect (windowOf [emailInput, vatInput, companyInputElement])))
          ''Acme'' ''IT123'' [Render [vatInput], Tick]
          (tick (fst (domSyncEffect (windowOf [emailInput, vatInput, companyInputElement])))
             ''Acme'' ''IT123''
             (snd (domSyncEffect (windowOf [emailInput, vatInput, companyInputElement])))))
     = [vatInput]"
proof -
  let ?w = "snd (domSyncEffect (windowOf [emailInput, vatInput, companyInputElement]))"
  let ?iid = "fst (domSyncEffect (windowOf [emailInput, vatInput, companyInputElement]))"
  have d: "document ?w = [emailInput, vatInput, companyInputElement]"
    and t: "timers ?w = {?iid}"
    by (simp_all add: domSyncEffect_def setInterval_def windowOf_def)
  have p: "pivaInputOf (document ?w) = Some 1"
    unfolding d
    by (simp add: pivaInputOf_def getElementById_def mtxConfig_def
          emailInput_def vatInput_def companyInputElement_def)
  have q: "querySelectorCompany (document ?w) \<noteq> Some 1"
    unfolding d
    by (simp add: querySelectorCompany_def
          emailInput_def vatInput_def companyInputElement_def)
  have i: "?iid \<in> timers ?w"
    by (simp add: t)
  note c = vat_input_synchronised_on_first_tick [OF p i disjI1 [OF q], of "''Acme''"]
  from c have v: "val (document (tick ?iid ''Acme'' ''IT123'' ?w) ! 1) = ''IT123''"
    and r: "readOnly (document (tick ?iid ''Acme'' ''IT123'' ?w) ! 1)"
    and o: "?iid \<notin> timers (tick ?iid ''Acme'' ''IT123'' ?w)"
    by simp_all
  have s: "timers (tick ?iid ''Acme'' ''IT123'' ?w) = {}"
    using p i t by (simp add: tick_def intervalCallback_timers)
  from c have "run ?iid ''Acme'' ''IT123'' [Render [vatInput], Tick]
                 (tick ?iid ''Acme'' ''IT123'' ?w)
               = (tick ?iid ''Acme'' ''IT123'' ?w)\<lparr>document :=
                   lastRendered [Render [vatInput], Tick]
                     (document (tick ?iid ''Acme'' ''IT123'' ?w))\<rparr>"
    by blast
  then have l: "document (run ?iid ''Acme'' ''IT123'' [Render [vatInput], Tick]
                  (tick ?iid ''Acme'' ''IT123'' ?w)) = [vatInput]"
    by simp
  from p i q v r s l show ?thesis by simp
qed

text \<open>
  C2 as it is worded fails in two ways. On a document whose VAT input is also the first
  match of the company selector, with the company name \<open>Acme\<close>, the value after the tick is
  \<open>Acme\<close>. And when the company input is in the document before the VAT input, the first
  tick finds it and clears the interval; the VAT input rendered afterwards is in the
  document with the VAT resolved to \<open>IT123\<close>, and after a further period it still has its
  empty value and is not read-only.
\<close>

theorem vat_input_left_without_vat:
  "pivaInputOf (document (snd (domSyncEffect (windowOf [aliasedInput])))) = Some 0 \<and>
   fst (domSyncEffect (windowOf [aliasedInput]))
     \<in> timers (snd (domSyncEffect (windowOf [aliasedInput]))) \<and>
   val (document (tick (fst (domSyncEffect (windowOf [aliasedInput]))) ''Acme'' ''IT123''
          (snd (domSyncEffect (windowOf [aliasedInput])))) ! 0) = ''Acme'' \<and>
   pivaInputOf (document (run (fst (domSyncEffect (windowOf [companyInputElement])))
          ''Acme'' ''IT123'' [Tick, Render [companyInputElement, vatInput]]
          (snd (domSyncEffect (windowOf [companyInputElement]))))) = Some 1 \<and>
   val (document (run (fst (domSyncEffect (windowOf [companyInputElement])))
          ''Acme'' ''IT123'' [Tick, Render [companyInputElement, vatInput], Tick]
          (snd (domSyncEffect (windowOf [companyInputElement])))) ! 1) = [] \<and>
   \<not> readOnly (document (run (fst (domSyncEffect (windowOf [companyInputElement])))
          ''Acme'' ''IT123'' [Tick, Render [companyInputElement, vatInput], Tick]
          (snd (domSyncEffect (windowOf [companyInputElement])))) ! 1)"
proof -
  let ?w = "snd (domSyncEffect (windowOf [companyInputElement]))"
  let ?iid = "fst (domSyncEffect (windowOf [companyInputElement]))"
  have a: "pivaInputOf (document (snd (domSyncEffect (windowOf [aliasedInput])))) = Some 0 \<and>
     fst (domSyncEffect (windowOf [aliasedInput]))
       \<in> timers (snd (domSyncEffect (windowOf [aliasedInput]))) \<and>
     val (document (tick (fst (domSyncEffect (windowOf [aliasedInput]))) ''Acme'' ''IT123''
            (snd (domSyncEffect (windowOf [aliasedInput])))) ! 0) = ''Acme''"
    by (simp add: domSyncEffect_def setInterval_def windowOf_def tick_def
          intervalCallback_document pivaInputOf_def getElementById_def
          querySelectorCompany_def mtxConfig_def aliasedInput_def Let_def
          storedValue_def stripNewlines_def)
  have i: "?iid \<in> timers ?w"
    by (simp add: domSyncEffect_def setInterval_def)
  have q: "querySelectorCompany (document ?w) \<noteq> None"
    by (simp add: domSyncEffect_def setInterval_def windowOf_def querySelectorCompany_def
          companyInputElement_def)
  have c: "?iid \<notin> timers (tick ?iid ''Acme'' ''IT123'' ?w)"
    using i q by (simp add: tick_def intervalCallback_timers)
  have r: "run ?iid ''Acme'' ''IT123'' evs (tick ?iid ''Acme'' ''IT123'' ?w)
             = (tick ?iid ''Acme'' ''IT123'' ?w)\<lparr>document :=
                 lastRendered evs (document (tick ?iid ''Acme'' ''IT123'' ?w))\<rparr>" for evs
    using c by (rule run_inactive)
  have d1: "document (run ?iid ''Acme'' ''IT123''
              [Tick, Render [companyInputElement, vatInput]] ?w)
            = [companyInputElement, vatInput]"
    using r [of "[Render [companyInputElement, vatInput]]"] by simp
  have d2: "document (run ?iid ''Acme'' ''IT123''
              [Tick, Render [companyInputElement, vatInput], Tick] ?w)
            = [companyInputElement, vatInput]"
    using r [of "[Render [companyInputElement, vatInput], Tick]"] by simp
  have p: "pivaInputOf [companyInputElement, vatInput] = Some 1"
    by (simp add: pivaInputOf_def getElementById_def mtxConfig_def
          companyInputElement_def vatInput_def)
  have v: "val ([companyInputElement, vatInput] ! 1) = [] \<and>
           \<not> readOnly ([companyInputElement, vatInput] ! 1)"
    by (simp add: vatInput_def)
  from a p v show ?thesis
    unfolding d1 d2 by simp
qed

subsection \<open>When the polling stops\<close>

text \<open>
  C3 (as amended). A tick of a set interval clears it as soon as at least one of the two
  inputs has been found; the interval stays set, and polling continues, exactly when
  neither the VAT input nor the company input is in the document.
\<close>

theorem polling_stops_when_one_input_found:
  "iid \<in> timers w \<Longrightarrow>
   (iid \<in> timers (tick iid cName cVat w) \<longleftrightarrow>
      pivaInputOf (document w) = None \<and> querySelectorCompany (document w) = None)"
  by (simp add: tick_def intervalCallback_timers)

text \<open>
  The theorem at a document without either input, where the interval stays set, and at one
  with both, where it is cleared.
\<close>

theorem polling_stops_when_one_input_found_witness:
  "fst (domSyncEffect (windowOf [emailInput]))
     \<in> timers (snd (domSyncEffect (windowOf [emailInput]))) \<and>
   fst (domSyncEffect (windowOf [emailInput]))
     \<in> timers (tick (fst (domSyncEffect (windowOf [emailInput]))) ''Acme'' ''IT123''
                  (snd (domSyncEffect (windowOf [emailInput])))) \<and>
   fst (domSyncEffect (windowOf [vatInput, companyInputElement]))
     \<in> timers (snd (domSyncEffect (windowOf [vatInput, companyInputElement]))) \<and>
   fst (domSyncEffect (windowOf [vatInput, companyInputElement]))
     \<notin> timers (tick (fst (domSyncEffect (windowOf [vatInput, companyInputElement])))
                  ''Acme'' ''IT123''
                  (snd (domSyncEffect (windowOf [vatInput, companyInputElement]))))"
proof -
  let ?w = "snd (domSyncEffect (windowOf [emailInput]))"
  let ?iid = "fst (domSyncEffect (windowOf [emailInput]))"
  let ?v = "snd (domSyncEffect (windowOf [vatInput, companyInputElement]))"
  let ?jid = "fst (domSyncEffect (windowOf [vatInput, companyInputElement]))"
  have i: "?iid \<in> timers ?w" and j: "?jid \<in> timers ?v"
    by (simp_all add: domSyncEffect_def setInterval_def)
  have n: "pivaInputOf (document ?w) = None \<and> querySelectorCompany (document ?w) = None"
    by (simp add: domSyncEffect_def setInterval_def windowOf_def pivaInputOf_def
          getElementById_def querySelectorCompany_def mtxConfig_def emailInput_def)
  have m: "pivaInputOf (document ?v) \<noteq> None"
    by (simp add: domSyncEffect_def setInterval_def windowOf_def pivaInputOf_def
          getElementById_def mtxConfig_def vatInput_def)
  from polling_stops_when_one_input_found [OF i, of "''Acme''" "''IT123''"] n
  have a: "?iid \<in> timers (tick ?iid ''Acme'' ''IT123'' ?w)"
    by simp
  from polling_stops_when_one_input_found [OF j, of "''Acme''" "''IT123''"] m
  have b: "?jid \<notin> timers (tick ?jid ''Acme'' ''IT123'' ?v)"
    by simp
  from i j a b show ?thesis by simp
qed

text \<open>
  C3 as it is worded fails on a document with the VAT input and no company input: only one
  of the two has been found, and the tick clears the interval.
\<close>

theorem polling_stops_with_vat_input_alone:
  "pivaInputOf (document (snd (domSyncEffect (windowOf [emailInput, vatInput])))) = Some 1 \<and>
   querySelectorCompany (document (snd (domSyncEffect (windowOf [emailInput, vatInput]))))
     = None \<and>
   fst (domSyncEffect (windowOf [emailInput, vatInput]))
     \<in> timers (snd (domSyncEffect (windowOf [emailInput, vatInput]))) \<and>
   fst (domSyncEffect (windowOf [emailInput, vatInput]))
     \<notin> timers (tick (fst (domSyncEffect (windowOf [emailInput, vatInput]))) ''Acme'' ''IT123''
                  (snd (domSyncEffect (windowOf [emailInput, vatInput]))))"
  by (simp add: domSyncEffect_def setInterval_def windowOf_def tick_def
        intervalCallback_timers pivaInputOf_def getElementById_def querySelectorCompany_def
        mtxConfig_def emailInput_def vatInput_def)

subsection \<open>The cleanup\<close>

text \<open>
  C8. The cleanup of the effect clears its interval in whatever state it runs. In
  particular, when neither target input is in the document when the effect sets the
  interval, nor in any document rendered afterwards, the interval is still set after any
  number of periods, and the cleanup then leaves only the timers that were there before
  the effect, none if there was none.
\<close>

theorem cleanup_clears_timer:
  "iid \<notin> timers (effectCleanup iid w) \<and>
   (pivaInputOf (document w0) = None \<and> querySelectorCompany (document w0) = None \<and>
    (\<forall>d. Render d \<in> set evs \<longrightarrow> pivaInputOf d = None \<and> querySelectorCompany d = None) \<longrightarrow>
      fst (domSyncEffect w0)
        \<in> timers (run (fst (domSyncEffect w0)) cName cVat evs (snd (domSyncEffect w0))) \<and>
      timers (effectCleanup (fst (domSyncEffect w0))
                (run (fst (domSyncEffect w0)) cName cVat evs (snd (domSyncEffect w0))))
        = timers w0 - {fst (domSyncEffect w0)})"
proof -
  have a: "iid \<notin> timers (effectCleanup iid w)"
    by (simp add: effectCleanup_def clearInterval_def)
  have b: "timers (run (fst (domSyncEffect w0)) cName cVat evs (snd (domSyncEffect w0)))
             = insert (fst (domSyncEffect w0)) (timers w0)"
    if "pivaInputOf (document w0) = None \<and> querySelectorCompany (document w0) = None"
      and "\<forall>d. Render d \<in> set evs \<longrightarrow> pivaInputOf d = None \<and> querySelectorCompany d = None"
  proof -
    have "timers (run (fst (domSyncEffect w0)) cName cVat evs (snd (domSyncEffect w0)))
            = timers (snd (domSyncEffect w0))"
      using that by (intro run_no_targets) (simp_all add: domSyncEffect_def setInterval_def)
    then show ?thesis by (simp add: domSyncEffect_def setInterval_def)
  qed
  show ?thesis using a b by (auto simp: effectCleanup_def clearInterval_def)
qed

text \<open>
  The theorem at a window without timers whose document holds an e-mail input only: after
  the effect, a period, a render, another period and the cleanup, no timer is set.
\<close>

theorem cleanup_clears_timer_witness:
  "pivaInputOf (document (windowOf [emailInput])) = None \<and>
   querySelectorCompany (document (windowOf [emailInput])) = None \<and>
   fst (domSyncEffect (windowOf [emailInput]))
     \<in> timers (run (fst (domSyncEffect (windowOf [emailInput]))) ''Acme'' ''IT123''
                 [Tick, Render [emailInput], Tick] (snd (domSyncEffect (windowOf [emailInput])))) \<and>
   timers (effectCleanup (fst (domSyncEffect (windowOf [emailInput])))
             (run (fst (domSyncEffect (windowOf [emailInput]))) ''Acme'' ''IT123''
                [Tick, Render [emailInput], Tick] (snd (domSyncEffect (windowOf [emailInput])))))
     = {}"
proof -
  have n: "pivaInputOf [emailInput] = None \<and> querySelectorCompany [emailInput] = None"
    by (simp add: pivaInputOf_def getElementById_def querySelectorCompany_def
          mtxConfig_def emailInput_def)
  have h: "pivaInputOf (document (windowOf [emailInput])) = None \<and>
           querySelectorCompany (document (windowOf [emailInput])) = None \<and>
           (\<forall>d. Render d \<in> set [Tick, Render [emailInput], Tick] \<longrightarrow>
                pivaInputOf d = None \<and> querySelectorCompany d = None)"
    using n by (simp add: windowOf_def)
  have e: "timers (windowOf [emailInput]) = {}"
    by (simp add: windowOf_def)
  from cleanup_clears_timer
         [where ?w0.0 = "windowOf [emailInput]" and evs = "[Tick, Render [emailInput], Tick]"
            and cName = "''Acme''" and cVat = "''IT123''" and iid = 0
            and w = "windowOf [emailInput]"] h e
  show ?thesis by simp
qed

subsection \<open>What a tick writes\<close>

text \<open>
  C10 (as amended). The callback keeps the length of the document and, at every element,
  every attribute but \<open>readOnly\<close>, the value and the two style properties. An element found
  as the VAT input or as the company input is made read-only and gets the disabled
  styling. When it is found in one of the two roles only, its value is overwritten, with
  the resolved value of that role as the element stores it (a text input strips the line
  breaks), only when that resolved value is non-empty and differs from the current value,
  and is left as it is otherwise, in particular when that resolved value is empty. An
  element found in both roles gets the VAT write and then the company write, each under
  the same condition. An element found in neither role is unchanged.
\<close>

theorem tick_effect_on_inputs:
  "length (document (intervalCallback iid cName cVat w)) = length (document w) \<and>
   (\<forall>k < length (document w).
      (document (intervalCallback iid cName cVat w) ! k)
         \<lparr>readOnly := readOnly (document w ! k), val := val (document w ! k),
          backgroundColor := backgroundColor (document w ! k),
          cursor := cursor (document w ! k)\<rparr> = document w ! k \<and>
      (pivaInputOf (document w) = Some k \<or> querySelectorCompany (document w) = Some k \<longrightarrow>
         readOnly (document (intervalCallback iid cName cVat w) ! k) \<and>
         backgroundColor (document (intervalCallback iid cName cVat w) ! k) = ''#f4f4f4'' \<and>
         cursor (document (intervalCallback iid cName cVat w) ! k) = ''not-allowed'') \<and>
      (pivaInputOf (document w) = Some k \<and> querySelectorCompany (document w) \<noteq> Some k \<longrightarrow>
         val (document (intervalCallback iid cName cVat w) ! k) =
           (if cVat \<noteq> [] \<and> val (document w ! k) \<noteq> cVat
            then storedValue (document w ! k) cVat else val (document w ! k))) \<and>
      (querySelectorCompany (document w) = Some k \<and> pivaInputOf (document w) \<noteq> Some k \<longrightarrow>
         val (document (intervalCallback iid cName cVat w) ! k) =
           (if cName \<noteq> [] \<and> val (document w ! k) \<noteq> cName
            then storedValue (document w ! k) cName else val (document w ! k))) \<and>
      (pivaInputOf (document w) = Some k \<and> querySelectorCompany (document w) = Some k \<longrightarrow>
         val (document (intervalCallback iid cName cVat w) ! k) =
           (let v = (if cVat \<noteq> [] \<and> val (document w ! k) \<noteq> cVat
                     then storedValue (document w ! k) cVat else val (document w ! k))
            in if cName \<noteq> [] \<and> v \<noteq> cName
               then storedValue (document w ! k) cName else v)) \<and>
      (pivaInputOf (document w) \<noteq> Some k \<and> querySelectorCompany (document w) \<noteq> Some k \<longrightarrow>
         document (intervalCallback iid cName cVat w) ! k = document w ! k))"
proof (intro conjI allI impI)
  show "length (document (intervalCallback iid cName cVat w)) = length (document w)"
    by (rule callback_length)
next
  fix k assume k: "k < length (document w)"
  show "(document (intervalCallback iid cName cVat w) ! k)
         \<lparr>readOnly := readOnly (document w ! k), val := val (document w ! k),
          backgroundColor := backgroundColor (document w ! k),
          cursor := cursor (document w ! k)\<rparr> = document w ! k"
    by (simp add: callback_nth [OF k] alignInput_def)
next
  fix k assume k: "k < length (document w)"
    and "pivaInputOf (document w) = Some k \<or> querySelectorCompany (document w) = Some k"
  then show "readOnly (document (intervalCallback iid cName cVat w) ! k)"
    and "backgroundColor (document (intervalCallback iid cName cVat w) ! k) = ''#f4f4f4''"
    and "cursor (document (intervalCallback iid cName cVat w) ! k) = ''not-allowed''"
    by (auto simp: callback_nth [OF k])
next
  fix k assume k: "k < length (document w)"
    and "pivaInputOf (document w) = Some k \<and> querySelectorCompany (document w) \<noteq> Some k"
  then show "val (document (intervalCallback iid cName cVat w) ! k) =
           (if cVat \<noteq> [] \<and> val (document w ! k) \<noteq> cVat
            then storedValue (document w ! k) cVat else val (document w ! k))"
    by (simp add: callback_nth [OF k])
next
  fix k assume k: "k < length (document w)"
    and "querySelectorCompany (document w) = Some k \<and> pivaInputOf (document w) \<noteq> Some k"
  then show "val (document (intervalCallback iid cName cVat w) ! k) =
           (if cName \<noteq> [] \<and> val (document w ! k) \<noteq> cName
            then storedValue (document w ! k) cName else val (document w ! k))"
    by (simp add: callback_nth [OF k])
next
  fix k assume k: "k < length (document w)"
    and "pivaInputOf (document w) = Some k \<and> querySelectorCompany (document w) = Some k"
  then show "val (document (intervalCallback iid cName cVat w) ! k) =
           (let v = (if cVat \<noteq> [] \<and> val (document w ! k) \<noteq> cVat
                     then storedValue (document w ! k) cVat else val (document w ! k))
            in if cName \<noteq> [] \<and> v \<noteq> cName
               then storedValue (document w ! k) cName else v)"
    by (simp add: callback_nth [OF k] Let_def storedValue_def)
next
  fix k assume k: "k < length (document w)"
    and "pivaInputOf (document w) \<noteq> Some k \<and> querySelectorCompany (document w) \<noteq> Some k"
  then show "document (intervalCallback iid cName cVat w) ! k = document w ! k"
    by (auto simp: callback_nth [OF k])
qed

text \<open>
  The theorem at a document with an e-mail input, the VAT input and the company input.
  With an empty resolved VAT and the company name \<open>Acme\<close> the VAT input keeps its value
  and becomes read-only, the company input gets the name, the e-mail input is untouched.
  With a resolved VAT that holds a line break the VAT input ends with \<open>IT123\<close>.
\<close>

theorem tick_effect_on_inputs_witness:
  "pivaInputOf (document (windowOf [emailInput, vatInput, companyInputElement])) = Some 1 \<and>
   querySelectorCompany (document (windowOf [emailInput, vatInput, companyInputElement]))
     = Some 2 \<and>
   document (intervalCallback 1 ''Acme'' []
               (windowOf [emailInput, vatInput, companyInputElement])) ! 0 = emailInput \<and>
   val (document (intervalCallback 1 ''Acme'' []
               (windowOf [emailInput, vatInput, companyInputElement])) ! 1) = val vatInput \<and>
   readOnly (document (intervalCallback 1 ''Acme'' []
               (windowOf [emailInput, vatInput, companyInputElement])) ! 1) \<and>
   val (document (intervalCallback 1 ''Acme'' []
               (windowOf [emailInput, vatInput, companyInputElement])) ! 2) = ''Acme'' \<and>
   cursor (document (intervalCallback 1 ''Acme'' []
               (windowOf [emailInput, vatInput, companyInputElement])) ! 2) = ''not-allowed'' \<and>
   val (document (intervalCallback 1 ''Acme'' vatWithLineBreak
               (windowOf [emailInput, vatInput, companyInputElement])) ! 1) = ''IT123''"
proof -
  let ?w = "windowOf [emailInput, vatInput, companyInputElement]"
  have d: "document ?w = [emailInput, vatInput, companyInputElement]"
    by (simp add: windowOf_def)
  have p: "pivaInputOf (document ?w) = Some 1"
    unfolding d
    by (simp add: pivaInputOf_def getElementById_def mtxConfig_def
          emailInput_def vatInput_def companyInputElement_def)
  have q: "querySelectorCompany (document ?w) = Some 2"
    unfolding d
    by (simp add: querySelectorCompany_def
          emailInput_def vatInput_def companyInputElement_def)
  note c = tick_effect_on_inputs [of 1 "''Acme''" "[]" ?w]
  note b = tick_effect_on_inputs [of 1 "''Acme''" vatWithLineBreak ?w]
  have l: "(0::nat) < length (document ?w)" "1 < length (document ?w)"
    "2 < length (document ?w)"
    by (simp_all add: d)
  from c l(1) p q have a0: "document (intervalCallback 1 ''Acme'' [] ?w) ! 0 = document ?w ! 0"
    by simp
  from c l(2) p q have a1: "val (document (intervalCallback 1 ''Acme'' [] ?w) ! 1)
                              = val (document ?w ! 1)"
    and r1: "readOnly (document (intervalCallback 1 ''Acme'' [] ?w) ! 1)"
    by simp_all
  have s2: "storedValue (document ?w ! 2) ''Acme'' = ''Acme''"
    "val (document ?w ! 2) \<noteq> ''Acme''"
    unfolding d
    by (simp_all add: storedValue_def stripNewlines_def companyInputElement_def)
  from c l(3) p q s2 have a2: "val (document (intervalCallback 1 ''Acme'' [] ?w) ! 2) = ''Acme''"
    and c2: "cursor (document (intervalCallback 1 ''Acme'' [] ?w) ! 2) = ''not-allowed''"
    by simp_all
  have s1: "storedValue (document ?w ! 1) vatWithLineBreak = ''IT123''"
    "val (document ?w ! 1) \<noteq> vatWithLineBreak" "vatWithLineBreak \<noteq> []"
    unfolding d
    by (simp_all add: storedValue_def stripNewlines_def vatWithLineBreak_def vatInput_def)
  from b l(2) p q s1
  have b1: "val (document (intervalCallback 1 ''Acme'' vatWithLineBreak ?w) ! 1) = ''IT123''"
    by simp
  from p q a0 a1 r1 a2 c2 b1 show ?thesis by (simp add: d)
qed

text \<open>
  C10 as it is worded fails on an input found in both roles, here one with the id of the
  VAT input and the name of the company input that holds \<open>typed\<close>. With an empty company
  name and the VAT \<open>IT123\<close> its value becomes \<open>IT123\<close>, although the resolved value of the
  company input is empty; with an empty VAT and the company name \<open>Acme\<close> it becomes
  \<open>Acme\<close>, although the resolved value of the VAT input is empty.
\<close>

theorem input_in_both_roles_overwritten:
  "pivaInputOf (document (windowOf [typedAliasedInput])) = Some 0 \<and>
   querySelectorCompany (document (windowOf [typedAliasedInput])) = Some 0 \<and>
   val (document (windowOf [typedAliasedInput]) ! 0) = ''typed'' \<and>
   val (document (intervalCallback 1 [] ''IT123'' (windowOf [typedAliasedInput])) ! 0)
     = ''IT123'' \<and>
   val (document (intervalCallback 1 ''Acme'' [] (windowOf [typedAliasedInput])) ! 0)
     = ''Acme''"
  by (simp add: windowOf_def intervalCallback_document pivaInputOf_def getElementById_def
        querySelectorCompany_def mtxConfig_def typedAliasedInput_def aliasedInput_def Let_def
        storedValue_def stripNewlines_def)


end
